theory Spec2Isabelle
  imports Main
begin

section \<open>Values, rows and exceptions\<close>

text \<open>
  The server in \<^verbatim>\<open>mysql_mcp_server.py\<close> is a thin layer over a database engine:
  every tool function borrows a connection, runs one statement (or one catalogue
  lookup), logs one line and returns. The engine and the database behind it are
  not part of the source, so they enter the model as a parameter: a record of
  functions saying what each library call visible in the source answers in a
  given database state. Exceptions are values of a sum type, the log and the list
  of statements handed to the connection are part of an explicit state.
\<close>

datatype sqlval = SqlNull | SqlInt int | SqlStr string

text \<open>A row as the source returns it, \<^verbatim>\<open>dict(row._mapping)\<close>: column name to value.\<close>

type_synonym row = "(string \<times> sqlval) list"

text \<open>The bound values of a statement, \<^verbatim>\<open>Dict[str, Any]\<close>.\<close>

type_synonym bind_params = "(string \<times> sqlval) list"

text \<open>
  An exception carries its message, \<^verbatim>\<open>str(e)\<close>. \<open>ValidationError\<close> is what the
  request models raise when a declared field constraint fails; everything the
  engine raises is a \<open>DriverError\<close>.
\<close>

datatype exn = ValidationError string | DriverError string

fun str_exn :: "exn \<Rightarrow> string" where
  "str_exn (ValidationError m) = m"
| "str_exn (DriverError m) = m"

fun raised :: "exn + 'a \<Rightarrow> exn option" where
  "raised (Inl e) = Some e"
| "raised (Inr v) = None"

section \<open>Python primitives used by the source\<close>

text \<open>\<^verbatim>\<open>str(n)\<close> for an integer: decimal digits, a minus sign when negative.\<close>

definition digit_char :: "nat \<Rightarrow> char" where
  "digit_char d = ''0123456789'' ! d"

function str_nat :: "nat \<Rightarrow> string" where
  "str_nat n = (if n < 10 then [digit_char n] else str_nat (n div 10) @ [digit_char (n mod 10)])"
  by pat_completeness auto
termination
  by (relation "measure (\<lambda>n. n)") auto

declare str_nat.simps [simp del]

definition str_int :: "int \<Rightarrow> string" where
  "str_int i = (if i < 0 then CHR ''-'' # str_nat (nat (- i)) else str_nat (nat i))"

text \<open>
  The slice \<^verbatim>\<open>xs[:n]\<close>: the first \<open>n\<close> elements when \<open>n\<close> is not negative, all
  but the last \<open>-n\<close> elements when it is.
\<close>

definition py_slice_to :: "int \<Rightarrow> 'a list \<Rightarrow> 'a list" where
  "py_slice_to n xs =
     (if 0 \<le> n then take (nat n) xs else take (length xs - nat (- n)) xs)"

text \<open>\<^verbatim>\<open>sep.join(parts)\<close>.\<close>

fun join :: "string \<Rightarrow> string list \<Rightarrow> string" where
  "join sep [] = []"
| "join sep [p] = p"
| "join sep (p # q # ps) = p @ sep @ join sep (q # ps)"

section \<open>Configuration and the engine it describes\<close>

record DatabaseConfig =
  DB_HOST :: string
  DB_PORT :: int
  DB_USER :: string
  DB_PASSWORD :: string
  DB_NAME :: string
  DB_POOL_SIZE :: int
  DB_POOL_RECYCLE :: int
  DB_MAX_OVERFLOW :: int
  QUERY_TIMEOUT :: int
  MAX_RESULT_ROWS :: int

text \<open>The arguments of \<^verbatim>\<open>URL.create\<close> and of \<^verbatim>\<open>create_engine\<close>.\<close>

record db_url =
  drivername :: string
  username :: string
  password :: string
  host :: string
  port :: int
  database :: string
  url_query :: "(string \<times> string) list"

record engine_args =
  url :: db_url
  poolclass :: string
  pool_size :: int
  max_overflow :: int
  pool_recycle :: int
  pool_pre_ping :: bool
  pool_use_lifo :: bool
  echo :: bool

definition create_db_engine :: "DatabaseConfig \<Rightarrow> engine_args" where
  "create_db_engine config =
     \<lparr> url = \<lparr> drivername = ''mysql+pymysql'',
               username = DB_USER config,
               password = DB_PASSWORD config,
               host = DB_HOST config,
               port = DB_PORT config,
               database = DB_NAME config,
               url_query = [(''charset'', ''utf8mb4''),
                            (''connect_timeout'', str_int (QUERY_TIMEOUT config))] \<rparr>,
       poolclass = ''QueuePool'',
       pool_size = DB_POOL_SIZE config,
       max_overflow = DB_MAX_OVERFLOW config,
       pool_recycle = DB_POOL_RECYCLE config,
       pool_pre_ping = True,
       pool_use_lifo = True,
       echo = False \<rparr>"

section \<open>The engine and the database behind it\<close>

text \<open>
  What iterating a result, \<^verbatim>\<open>result.rowcount\<close> and \<^verbatim>\<open>result.lastrowid\<close> give.
  Iterating may raise (a statement that returns no rows has a closed result).
\<close>

record cursor_result =
  fetch_rows :: "exn + row list"
  rowcount :: int
  lastrowid :: "int option"

text \<open>
  An entry of \<^verbatim>\<open>inspector.get_columns(table_name)\<close>. The key \<^verbatim>\<open>comment\<close> is read
  with \<^verbatim>\<open>col.get("comment", "")\<close>, so it may be absent (\<open>None\<close>) or present with a
  value that is itself optional.
\<close>

record column_info =
  col_name :: string
  col_type :: string
  col_nullable :: bool
  col_default :: "string option"
  col_comment :: "string option option"

text \<open>
  The library calls the source makes, as functions of the database state \<open>'db\<close>:
  \<^item> \<open>eng_inspect\<close>: \<^verbatim>\<open>inspect(engine)\<close>, \<open>Some e\<close> when it raises;
  \<^item> \<open>insp_get_table_names\<close>, \<open>insp_get_columns\<close>: the two catalogue lookups;
  \<^item> \<open>eng_connect\<close>: entering \<^verbatim>\<open>engine.connect()\<close> or \<^verbatim>\<open>engine.begin()\<close>, that is
    checking a connection out of the pool, \<open>Some e\<close> when it raises;
  \<^item> \<open>conn_execute\<close>: \<^verbatim>\<open>conn.execute(text(sql), values)\<close> on the session's working
    state; it answers a result or an exception, and the working state it leaves
    (a statement that fails half way may have changed it);
  \<^item> \<open>conn_close\<close>: leaving \<^verbatim>\<open>engine.connect()\<close> with no explicit commit: the state
    the database is left in, given the state at checkout and the working state;
  \<^item> \<open>conn_commit\<close>: the commit on leaving \<^verbatim>\<open>engine.begin()\<close> normally, \<open>Some e\<close>
    when it raises;
  \<^item> \<open>conn_rollback\<close>: the rollback on leaving \<^verbatim>\<open>engine.begin()\<close> by an exception:
    the state the database is left in, given the state the transaction began in
    and the working state. An engine that is transactional answers the state
    the transaction began in; one that is not keeps what the statement did.
\<close>

record 'db engine =
  eng_inspect :: "'db \<Rightarrow> exn option"
  insp_get_table_names :: "'db \<Rightarrow> exn + string list"
  insp_get_columns :: "'db \<Rightarrow> string \<Rightarrow> exn + column_info list"
  eng_connect :: "'db \<Rightarrow> exn option"
  conn_execute :: "'db \<Rightarrow> string \<Rightarrow> bind_params \<Rightarrow> (exn + cursor_result) \<times> 'db"
  conn_close :: "'db \<Rightarrow> 'db \<Rightarrow> 'db"
  conn_commit :: "'db \<Rightarrow> exn option"
  conn_rollback :: "'db \<Rightarrow> 'db \<Rightarrow> 'db"

section \<open>The state the tool functions act on\<close>

datatype level = INFO | WARNING | ERROR

text \<open>
  One constructor for each log line of the tool functions, with the values its
  format string interpolates: counts, the row cap, the table name, \<^verbatim>\<open>str(e)\<close>.
\<close>

datatype message =
    Tables_listed nat
  | Tables_failed string
  | Schema_described string
  | Schema_failed string string
  | Result_truncated int
  | Query_succeeded nat
  | Query_failed string
  | Write_succeeded int
  | Write_failed string
  | Table_data_fetched string nat
  | Table_data_failed string string

text \<open>
  \<open>db\<close> is the committed state of the database, \<open>logged\<close> the lines written to the
  logger, \<open>sent\<close> every pair of statement text and bound values handed to
  \<^verbatim>\<open>conn.execute\<close>, in order.
\<close>

record 'db world =
  db :: 'db
  logged :: "(level \<times> message) list"
  sent :: "(string \<times> bind_params) list"

definition log_line :: "level \<Rightarrow> message \<Rightarrow> 'db world \<Rightarrow> 'db world" where
  "log_line lv m w = w\<lparr>logged := logged w @ [(lv, m)]\<rparr>"

text \<open>
  The handler every tool function ends with:
  \<^verbatim>\<open>except Exception as e: logger.error(...); raise\<close>.
\<close>

definition log_and_reraise ::
  "(string \<Rightarrow> message) \<Rightarrow> (exn + 'a) \<times> 'db world \<Rightarrow> (exn + 'a) \<times> 'db world" where
  "log_and_reraise failed r =
     (case fst r of
        Inl e \<Rightarrow> (Inl e, log_line ERROR (failed (str_exn e)) (snd r))
      | Inr v \<Rightarrow> r)"

section \<open>Request models\<close>

record QueryParams =
  query :: string
  params :: "bind_params option"

text \<open>\<^verbatim>\<open>query_params.params or {}\<close>: the values bound to the statement.\<close>

definition bound_values :: "QueryParams \<Rightarrow> bind_params" where
  "bound_values query_params = (case params query_params of None \<Rightarrow> [] | Some vals \<Rightarrow> vals)"

record TableQueryParams =
  table_name :: string
  columns :: "string list option"
  where_clause :: "string option"
  order_by :: "string option"
  limit :: int
  offset :: int

text \<open>
  The arguments of a \<^verbatim>\<open>get_table_data\<close> request as the caller sends them: \<open>None\<close> is
  an argument left out.
\<close>

record table_query_args =
  arg_table_name :: string
  arg_columns :: "string list option"
  arg_where :: "string option"
  arg_order_by :: "string option"
  arg_limit :: "int option"
  arg_offset :: "int option"

text \<open>
  Building a \<^verbatim>\<open>TableQueryParams\<close> from the arguments: the defaults of the class,
  and the one declared constraint, \<^verbatim>\<open>limit: int = Field(100, ge=1, le=1000)\<close>.
  \<^verbatim>\<open>offset: int = 0\<close> declares a type and a default only.
\<close>

definition TableQueryParams_validate :: "table_query_args \<Rightarrow> exn + TableQueryParams" where
  "TableQueryParams_validate a =
     (let lim = (case arg_limit a of None \<Rightarrow> 100 | Some l \<Rightarrow> l);
          off = (case arg_offset a of None \<Rightarrow> 0 | Some k \<Rightarrow> k)
      in if lim < 1 then Inl (ValidationError ''limit: greater than or equal to 1'')
         else if 1000 < lim then Inl (ValidationError ''limit: less than or equal to 1000'')
         else Inr \<lparr> table_name = arg_table_name a,
                    columns = arg_columns a,
                    where_clause = arg_where a,
                    order_by = arg_order_by a,
                    limit = lim,
                    offset = off \<rparr>)"

section \<open>The tool functions\<close>

subsection \<open>Schema\<close>

definition list_tables :: "'db engine \<Rightarrow> 'db world \<Rightarrow> (exn + string list) \<times> 'db world" where
  "list_tables eng w =
     log_and_reraise Tables_failed
       (case eng_inspect eng (db w) of
          Some e \<Rightarrow> (Inl e, w)
        | None \<Rightarrow>
            (case insp_get_table_names eng (db w) of
               Inl e \<Rightarrow> (Inl e, w)
             | Inr tables \<Rightarrow> (Inr tables, log_line INFO (Tables_listed (length tables)) w)))"

record column_descriptor =
  d_name :: string
  d_type :: string
  d_nullable :: bool
  d_default :: "string option"
  d_comment :: "string option"

definition describe_column :: "column_info \<Rightarrow> column_descriptor" where
  "describe_column col =
     \<lparr> d_name = col_name col,
       d_type = col_type col,
       d_nullable = col_nullable col,
       d_default = col_default col,
       d_comment = (case col_comment col of None \<Rightarrow> Some [] | Some c \<Rightarrow> c) \<rparr>"

definition describe_table ::
  "'db engine \<Rightarrow> string \<Rightarrow> 'db world \<Rightarrow> (exn + column_descriptor list) \<times> 'db world" where
  "describe_table eng tname w =
     log_and_reraise (Schema_failed tname)
       (case eng_inspect eng (db w) of
          Some e \<Rightarrow> (Inl e, w)
        | None \<Rightarrow>
            (case insp_get_columns eng (db w) tname of
               Inl e \<Rightarrow> (Inl e, w)
             | Inr cols \<Rightarrow> (Inr (map describe_column cols), log_line INFO (Schema_described tname) w)))"

subsection \<open>Reading\<close>

text \<open>
  \<^verbatim>\<open>if len(rows) > config.MAX_RESULT_ROWS: rows = rows[:config.MAX_RESULT_ROWS]\<close>
  and the warning, as both reading functions have it.
\<close>

definition truncate_rows :: "DatabaseConfig \<Rightarrow> row list \<Rightarrow> 'db world \<Rightarrow> row list \<times> 'db world" where
  "truncate_rows config rows w =
     (if MAX_RESULT_ROWS config < int (length rows)
      then (py_slice_to (MAX_RESULT_ROWS config) rows,
            log_line WARNING (Result_truncated (MAX_RESULT_ROWS config)) w)
      else (rows, w))"

text \<open>
  The body of \<^verbatim>\<open>with engine.connect() as conn:\<close> shared by the two reading
  functions: execute, materialise the rows, cap them, log the success line
  \<open>ok\<close>, return; the connection is closed on every way out.
\<close>

definition read_rows ::
  "DatabaseConfig \<Rightarrow> 'db engine \<Rightarrow> (nat \<Rightarrow> message) \<Rightarrow> string \<Rightarrow> bind_params \<Rightarrow> 'db world
     \<Rightarrow> (exn + row list) \<times> 'db world" where
  "read_rows config eng ok sql vals w =
     (case eng_connect eng (db w) of
        Some e \<Rightarrow> (Inl e, w)
      | None \<Rightarrow>
          (let (result, working) = conn_execute eng (db w) sql vals;
               w1 = w\<lparr>sent := sent w @ [(sql, vals)], db := conn_close eng (db w) working\<rparr>
           in case result of
                Inl e \<Rightarrow> (Inl e, w1)
              | Inr cur \<Rightarrow>
                  (case fetch_rows cur of
                     Inl e \<Rightarrow> (Inl e, w1)
                   | Inr rows \<Rightarrow>
                       (let (rows', w2) = truncate_rows config rows w1
                        in (Inr rows', log_line INFO (ok (length rows')) w2)))))"

definition execute_query ::
  "DatabaseConfig \<Rightarrow> 'db engine \<Rightarrow> QueryParams \<Rightarrow> 'db world \<Rightarrow> (exn + row list) \<times> 'db world" where
  "execute_query config eng query_params w =
     log_and_reraise Query_failed
       (read_rows config eng Query_succeeded (query query_params) (bound_values query_params) w)"

text \<open>The statement \<^verbatim>\<open>get_table_data\<close> composes from the request's fragments.\<close>

definition table_query :: "TableQueryParams \<Rightarrow> string" where
  "table_query p =
     (let cols = (case columns p of None \<Rightarrow> [''*''] | Some [] \<Rightarrow> [''*''] | Some cs \<Rightarrow> cs);
          column_list = join '', '' cols;
          q0 = ''SELECT '' @ column_list @ '' FROM '' @ table_name p;
          q1 = (case where_clause p of
                  None \<Rightarrow> q0
                | Some c \<Rightarrow> if c = [] then q0 else q0 @ '' WHERE '' @ c);
          q2 = (case order_by p of
                  None \<Rightarrow> q1
                | Some c \<Rightarrow> if c = [] then q1 else q1 @ '' ORDER BY '' @ c)
      in q2 @ '' LIMIT '' @ str_int (limit p) @ '' OFFSET '' @ str_int (offset p))"

definition get_table_data ::
  "DatabaseConfig \<Rightarrow> 'db engine \<Rightarrow> TableQueryParams \<Rightarrow> 'db world
     \<Rightarrow> (exn + row list) \<times> 'db world" where
  "get_table_data config eng p w =
     log_and_reraise (Table_data_failed (table_name p))
       (read_rows config eng (Table_data_fetched (table_name p)) (table_query p) [] w)"

text \<open>
  A \<^verbatim>\<open>get_table_data\<close> request as the dispatcher handles it: the arguments are
  validated into a \<^verbatim>\<open>TableQueryParams\<close> first, and the function runs only on a
  valid one.
\<close>

definition get_table_data_request ::
  "DatabaseConfig \<Rightarrow> 'db engine \<Rightarrow> table_query_args \<Rightarrow> 'db world
     \<Rightarrow> (exn + row list) \<times> 'db world" where
  "get_table_data_request config eng a w =
     (case TableQueryParams_validate a of
        Inl e \<Rightarrow> (Inl e, w)
      | Inr p \<Rightarrow> get_table_data config eng p w)"

subsection \<open>Writing\<close>

record write_result =
  status :: string
  affected_rows :: int
  result_lastrowid :: "int option"

text \<open>
  \<^verbatim>\<open>with engine.begin() as conn:\<close> commits when the block is left normally and
  rolls back when it is left by an exception, the statement's or the commit's.
  The success line is logged inside the block, before the commit.
\<close>

definition execute_write ::
  "'db engine \<Rightarrow> QueryParams \<Rightarrow> 'db world \<Rightarrow> (exn + write_result) \<times> 'db world" where
  "execute_write eng query_params w =
     log_and_reraise Write_failed
       (case eng_connect eng (db w) of
          Some e \<Rightarrow> (Inl e, w)
        | None \<Rightarrow>
            (let vals = bound_values query_params;
                 (result, working) = conn_execute eng (db w) (query query_params) vals;
                 w1 = w\<lparr>sent := sent w @ [(query query_params, vals)]\<rparr>
             in case result of
                  Inl e \<Rightarrow> (Inl e, w1\<lparr>db := conn_rollback eng (db w) working\<rparr>)
                | Inr cur \<Rightarrow>
                    (let w2 = log_line INFO (Write_succeeded (rowcount cur)) w1
                     in case conn_commit eng working of
                          Some e \<Rightarrow> (Inl e, w2\<lparr>db := conn_rollback eng (db w) working\<rparr>)
                        | None \<Rightarrow>
                            (Inr \<lparr> status = ''success'',
                                   affected_rows = rowcount cur,
                                   result_lastrowid = lastrowid cur \<rparr>,
                             w2\<lparr>db := working\<rparr>))))"

section \<open>Concrete inputs\<close>

text \<open>
  A configuration with the defaults of \<^verbatim>\<open>DatabaseConfig\<close> and a chosen row cap, and
  an engine over a database that is one table's rows. The engine answers every
  statement with \<open>answer\<close>; whatever it answers, the statement has appended a row
  to the working state by then, so a failing statement leaves work to roll back.
\<close>

definition example_config :: "int \<Rightarrow> DatabaseConfig" where
  "example_config cap =
     \<lparr> DB_HOST = ''localhost'', DB_PORT = 3306, DB_USER = ''app'', DB_PASSWORD = ''secret'',
       DB_NAME = ''shop'', DB_POOL_SIZE = 5, DB_POOL_RECYCLE = 3600, DB_MAX_OVERFLOW = 2,
       QUERY_TIMEOUT = 30, MAX_RESULT_ROWS = cap \<rparr>"

definition row_a :: row where "row_a = [(''x'', SqlInt 1)]"
definition row_b :: row where "row_b = [(''x'', SqlInt 2)]"
definition row_c :: row where "row_c = [(''x'', SqlInt 3)]"

definition example_columns :: "column_info list" where
  "example_columns =
     [\<lparr> col_name = ''x'', col_type = ''INTEGER'', col_nullable = False,
        col_default = None, col_comment = None \<rparr>]"

definition example_engine :: "exn + row list \<Rightarrow> (row list) engine" where
  "example_engine answer =
     \<lparr> eng_inspect = (\<lambda>d. None),
       insp_get_table_names = (\<lambda>d. Inr [''t'']),
       insp_get_columns = (\<lambda>d tname.
          if tname = ''t'' then Inr example_columns else Inl (DriverError ''NoSuchTableError'')),
       eng_connect = (\<lambda>d. None),
       conn_execute = (\<lambda>d sql vals.
          (case answer of
             Inl e \<Rightarrow> Inl e
           | Inr rows \<Rightarrow> Inr \<lparr> fetch_rows = Inr rows, rowcount = 1, lastrowid = Some 7 \<rparr>,
           d @ [row_c])),
       conn_close = (\<lambda>d working. d),
       conn_commit = (\<lambda>d. None),
       conn_rollback = (\<lambda>d working. d) \<rparr>"

text \<open>
  An engine that knows one statement text only: it answers \<open>rows\<close> to \<open>known\<close>
  and a syntax error to any other text.
\<close>

definition strict_engine :: "string \<Rightarrow> row list \<Rightarrow> (row list) engine" where
  "strict_engine known rows =
     \<lparr> eng_inspect = (\<lambda>d. None),
       insp_get_table_names = (\<lambda>d. Inr [''t'']),
       insp_get_columns = (\<lambda>d tname. Inr example_columns),
       eng_connect = (\<lambda>d. None),
       conn_execute = (\<lambda>d sql vals.
          if sql = known
          then (Inr \<lparr> fetch_rows = Inr rows, rowcount = 1, lastrowid = Some 7 \<rparr>, d @ [row_c])
          else (Inl (DriverError ''syntax error''), d)),
       conn_close = (\<lambda>d working. d),
       conn_commit = (\<lambda>d. None),
       conn_rollback = (\<lambda>d working. d) \<rparr>"

text \<open>
  An engine whose database is the list of what it was asked to execute: each
  statement text with the values bound to it, as the engine received them.
  Nothing it has received is undone.
\<close>

definition recording_engine :: "((string \<times> bind_params) list) engine" where
  "recording_engine =
     \<lparr> eng_inspect = (\<lambda>d. None),
       insp_get_table_names = (\<lambda>d. Inr []),
       insp_get_columns = (\<lambda>d tname. Inr []),
       eng_connect = (\<lambda>d. None),
       conn_execute = (\<lambda>d sql vals.
          (Inr \<lparr> fetch_rows = Inr [], rowcount = 0, lastrowid = None \<rparr>, d @ [(sql, vals)])),
       conn_close = (\<lambda>d working. working),
       conn_commit = (\<lambda>d. None),
       conn_rollback = (\<lambda>d working. working) \<rparr>"

definition example_world :: "(row list) world" where
  "example_world = \<lparr> db = [row_a], logged = [], sent = [] \<rparr>"

definition example_query :: QueryParams where
  "example_query = \<lparr> query = ''SELECT x FROM t WHERE x > :v'', params = Some [(''v'', SqlInt 0)] \<rparr>"


definition example_args :: "int option \<Rightarrow> int option \<Rightarrow> table_query_args" where
  "example_args lim off =
     \<lparr> arg_table_name = ''t'', arg_columns = None, arg_where = None, arg_order_by = None,
       arg_limit = lim, arg_offset = off \<rparr>"

definition example_params :: TableQueryParams where
  "example_params =
     \<lparr> table_name = ''t'', columns = None, where_clause = None, order_by = None,
       limit = 100, offset = 0 \<rparr>"

section \<open>The exception handler and the read path\<close>

lemma fst_log_and_reraise: "fst (log_and_reraise failed r) = fst r"
  by (cases r) (simp add: log_and_reraise_def split: sum.splits)

lemma db_log_and_reraise: "db (snd (log_and_reraise failed r)) = db (snd r)"
  by (cases r) (simp add: log_and_reraise_def log_line_def split: sum.splits)

lemma sent_log_and_reraise: "sent (snd (log_and_reraise failed r)) = sent (snd r)"
  by (cases r) (simp add: log_and_reraise_def log_line_def split: sum.splits)

lemma logged_log_and_reraise:
  "logged (snd (log_and_reraise failed r)) =
     logged (snd r) @ (case fst r of Inl e \<Rightarrow> [(ERROR, failed (str_exn e))] | Inr v \<Rightarrow> [])"
  by (cases r) (simp add: log_and_reraise_def log_line_def split: sum.splits)

lemma fst_read_rows:
  "fst (read_rows config eng ok sql vals w) =
     (case eng_connect eng (db w) of
        Some e \<Rightarrow> Inl e
      | None \<Rightarrow>
          (case fst (conn_execute eng (db w) sql vals) of
             Inl e \<Rightarrow> Inl e
           | Inr cur \<Rightarrow>
               (case fetch_rows cur of
                  Inl e \<Rightarrow> Inl e
                | Inr rows \<Rightarrow>
                    Inr (if MAX_RESULT_ROWS config < int (length rows)
                         then py_slice_to (MAX_RESULT_ROWS config) rows else rows))))"
  by (simp add: read_rows_def truncate_rows_def Let_def split: option.splits sum.splits prod.splits)

lemma sent_read_rows:
  "sent (snd (read_rows config eng ok sql vals w)) =
     sent w @ (case eng_connect eng (db w) of Some e \<Rightarrow> [] | None \<Rightarrow> [(sql, vals)])"
  by (simp add: read_rows_def truncate_rows_def log_line_def Let_def
        split: option.splits sum.splits prod.splits)

lemma logged_read_rows:
  "logged (snd (read_rows config eng ok sql vals w)) =
     logged w @
     (case eng_connect eng (db w) of
        Some e \<Rightarrow> []
      | None \<Rightarrow>
          (case fst (conn_execute eng (db w) sql vals) of
             Inl e \<Rightarrow> []
           | Inr cur \<Rightarrow>
               (case fetch_rows cur of
                  Inl e \<Rightarrow> []
                | Inr rows \<Rightarrow>
                    (if MAX_RESULT_ROWS config < int (length rows)
                     then [(WARNING, Result_truncated (MAX_RESULT_ROWS config)),
                           (INFO, ok (length (py_slice_to (MAX_RESULT_ROWS config) rows)))]
                     else [(INFO, ok (length rows))]))))"
  by (simp add: read_rows_def truncate_rows_def log_line_def Let_def
        split: option.splits sum.splits prod.splits)

lemma read_rows_succeeds:
  assumes "fst (read_rows config eng ok sql vals w) = Inr out"
  obtains cur rows where
    "eng_connect eng (db w) = None"
    "fst (conn_execute eng (db w) sql vals) = Inr cur"
    "fetch_rows cur = Inr rows"
    "out = (if MAX_RESULT_ROWS config < int (length rows)
            then py_slice_to (MAX_RESULT_ROWS config) rows else rows)"
proof (cases "eng_connect eng (db w)")
  case (Some e)
  with assms show ?thesis by (simp add: fst_read_rows)
next
  case None
  show ?thesis
  proof (cases "fst (conn_execute eng (db w) sql vals)")
    case (Inl e)
    with None assms show ?thesis by (simp add: fst_read_rows)
  next
    case (Inr cur)
    show ?thesis
    proof (cases "fetch_rows cur")
      case (Inl e)
      with None Inr assms show ?thesis by (simp add: fst_read_rows)
    next
      case rows: (Inr rows)
      with None Inr assms that show ?thesis by (simp add: fst_read_rows)
    qed
  qed
qed

lemma read_rows_log_on_success:
  assumes "eng_connect eng (db w) = None"
    and "fst (conn_execute eng (db w) sql vals) = Inr cur"
    and "fetch_rows cur = Inr rows"
    and "fst (read_rows config eng ok sql vals w) = Inr out"
  shows "logged (snd (read_rows config eng ok sql vals w)) =
           logged w @
           (if MAX_RESULT_ROWS config < int (length rows)
            then [(WARNING, Result_truncated (MAX_RESULT_ROWS config))] else []) @
           [(INFO, ok (length out))]"
  using assms by (auto simp add: logged_read_rows fst_read_rows)

lemma py_slice_to_cap:
  assumes "0 \<le> n" and "n < int (length xs)"
  shows "py_slice_to n xs = take (nat n) xs" and "int (length (py_slice_to n xs)) = n"
  using assms by (simp_all add: py_slice_to_def)

lemma example_engine_simps:
  "eng_inspect (example_engine a) d = None"
  "eng_connect (example_engine a) d = None"
  "conn_execute (example_engine (Inr rows)) d sql vals =
     (Inr \<lparr> fetch_rows = Inr rows, rowcount = 1, lastrowid = Some 7 \<rparr>, d @ [row_c])"
  "conn_execute (example_engine (Inl e)) d sql vals = (Inl e, d @ [row_c])"
  "conn_close (example_engine a) d d' = d"
  "conn_commit (example_engine a) d = None"
  "conn_rollback (example_engine a) d d' = d"
  by (simp_all add: example_engine_def)

section \<open>Truncation of results\<close>

lemma execute_query_warns:
  assumes "fst (execute_query config eng qp w) = Inr out"
  shows "\<exists>cur rows.
         fst (conn_execute eng (db w) (query qp) (bound_values qp)) = Inr cur \<and>
         fetch_rows cur = Inr rows \<and>
         logged (snd (execute_query config eng qp w)) =
           logged w @
           (if MAX_RESULT_ROWS config < int (length rows)
            then [(WARNING, Result_truncated (MAX_RESULT_ROWS config))] else []) @
           [(INFO, Query_succeeded (length out))]"
proof -
  from assms have ok: "fst (read_rows config eng Query_succeeded (query qp) (bound_values qp) w) = Inr out"
    by (simp add: execute_query_def fst_log_and_reraise)
  then obtain cur rows where h:
    "eng_connect eng (db w) = None"
    "fst (conn_execute eng (db w) (query qp) (bound_values qp)) = Inr cur"
    "fetch_rows cur = Inr rows"
    by (rule read_rows_succeeds)
  from read_rows_log_on_success [OF h ok] ok
  have "logged (snd (execute_query config eng qp w)) =
           logged w @
           (if MAX_RESULT_ROWS config < int (length rows)
            then [(WARNING, Result_truncated (MAX_RESULT_ROWS config))] else []) @
           [(INFO, Query_succeeded (length out))]"
    by (simp add: execute_query_def logged_log_and_reraise)
  with h show ?thesis by blast
qed

lemma get_table_data_warns:
  assumes "fst (get_table_data config eng p w) = Inr out"
  shows "\<exists>cur rows.
         fst (conn_execute eng (db w) (table_query p) []) = Inr cur \<and>
         fetch_rows cur = Inr rows \<and>
         logged (snd (get_table_data config eng p w)) =
           logged w @
           (if MAX_RESULT_ROWS config < int (length rows)
            then [(WARNING, Result_truncated (MAX_RESULT_ROWS config))] else []) @
           [(INFO, Table_data_fetched (table_name p) (length out))]"
proof -
  from assms have ok:
    "fst (read_rows config eng (Table_data_fetched (table_name p)) (table_query p) [] w) = Inr out"
    by (simp add: get_table_data_def fst_log_and_reraise)
  then obtain cur rows where h:
    "eng_connect eng (db w) = None"
    "fst (conn_execute eng (db w) (table_query p) []) = Inr cur"
    "fetch_rows cur = Inr rows"
    by (rule read_rows_succeeds)
  from read_rows_log_on_success [OF h ok] ok
  have "logged (snd (get_table_data config eng p w)) =
           logged w @
           (if MAX_RESULT_ROWS config < int (length rows)
            then [(WARNING, Result_truncated (MAX_RESULT_ROWS config))] else []) @
           [(INFO, Table_data_fetched (table_name p) (length out))]"
    by (simp add: get_table_data_def logged_log_and_reraise)
  with h show ?thesis by blast
qed

text \<open>
  C1, as stated, fails: the value a reading function returns is the list of rows
  and nothing else. With a cap of two rows, a result of three rows and a result
  of two rows give the same returned value, though only the first was cut: no
  flag in the returned value tells them apart.
\<close>

theorem truncated_flag_counterexample:
  "fst (execute_query (example_config 2) (example_engine (Inr [row_a, row_b, row_c]))
          example_query example_world)
     = fst (execute_query (example_config 2) (example_engine (Inr [row_a, row_b]))
          example_query example_world)
   \<and> MAX_RESULT_ROWS (example_config 2) < int (length [row_a, row_b, row_c])
   \<and> \<not> MAX_RESULT_ROWS (example_config 2) < int (length [row_a, row_b])"
  by (simp add: execute_query_def fst_log_and_reraise fst_read_rows example_engine_simps
        example_config_def example_world_def py_slice_to_def)

text \<open>
  C1, amended: a successful \<^verbatim>\<open>execute_query\<close> or \<^verbatim>\<open>get_table_data\<close> returns the rows
  alone and signals truncation by a logged warning: the call appends the warning
  line, before its success line, exactly when the statement's result had more
  than \<^verbatim>\<open>MAX_RESULT_ROWS\<close> rows, and nothing else otherwise. Truncation is never an
  error: whenever the connection, the statement and the fetch succeed, the call
  succeeds, whatever the number of rows.
\<close>

theorem truncation_signalled_by_warning:
  "(\<forall>out. fst (execute_query config eng qp w) = Inr out \<longrightarrow>
      (\<exists>cur rows.
         fst (conn_execute eng (db w) (query qp) (bound_values qp)) = Inr cur \<and>
         fetch_rows cur = Inr rows \<and>
         logged (snd (execute_query config eng qp w)) =
           logged w @
           (if MAX_RESULT_ROWS config < int (length rows)
            then [(WARNING, Result_truncated (MAX_RESULT_ROWS config))] else []) @
           [(INFO, Query_succeeded (length out))]))
   \<and> (\<forall>out. fst (get_table_data config eng p w) = Inr out \<longrightarrow>
      (\<exists>cur rows.
         fst (conn_execute eng (db w) (table_query p) []) = Inr cur \<and>
         fetch_rows cur = Inr rows \<and>
         logged (snd (get_table_data config eng p w)) =
           logged w @
           (if MAX_RESULT_ROWS config < int (length rows)
            then [(WARNING, Result_truncated (MAX_RESULT_ROWS config))] else []) @
           [(INFO, Table_data_fetched (table_name p) (length out))]))
   \<and> (\<forall>cur rows.
        eng_connect eng (db w) = None \<and>
        fst (conn_execute eng (db w) (query qp) (bound_values qp)) = Inr cur \<and>
        fetch_rows cur = Inr rows \<longrightarrow>
        (\<exists>out. fst (execute_query config eng qp w) = Inr out))
   \<and> (\<forall>cur rows.
        eng_connect eng (db w) = None \<and>
        fst (conn_execute eng (db w) (table_query p) []) = Inr cur \<and>
        fetch_rows cur = Inr rows \<longrightarrow>
        (\<exists>out. fst (get_table_data config eng p w) = Inr out))"
proof (intro conjI allI impI)
  fix out assume "fst (execute_query config eng qp w) = Inr out"
  then show "\<exists>cur rows.
         fst (conn_execute eng (db w) (query qp) (bound_values qp)) = Inr cur \<and>
         fetch_rows cur = Inr rows \<and>
         logged (snd (execute_query config eng qp w)) =
           logged w @
           (if MAX_RESULT_ROWS config < int (length rows)
            then [(WARNING, Result_truncated (MAX_RESULT_ROWS config))] else []) @
           [(INFO, Query_succeeded (length out))]"
    by (rule execute_query_warns)
next
  fix out assume "fst (get_table_data config eng p w) = Inr out"
  then show "\<exists>cur rows.
         fst (conn_execute eng (db w) (table_query p) []) = Inr cur \<and>
         fetch_rows cur = Inr rows \<and>
         logged (snd (get_table_data config eng p w)) =
           logged w @
           (if MAX_RESULT_ROWS config < int (length rows)
            then [(WARNING, Result_truncated (MAX_RESULT_ROWS config))] else []) @
           [(INFO, Table_data_fetched (table_name p) (length out))]"
    by (rule get_table_data_warns)
next
  fix cur rows
  assume "eng_connect eng (db w) = None \<and>
        fst (conn_execute eng (db w) (query qp) (bound_values qp)) = Inr cur \<and>
        fetch_rows cur = Inr rows"
  then show "\<exists>out. fst (execute_query config eng qp w) = Inr out"
    by (simp add: execute_query_def fst_log_and_reraise fst_read_rows)
next
  fix cur rows
  assume "eng_connect eng (db w) = None \<and>
        fst (conn_execute eng (db w) (table_query p) []) = Inr cur \<and>
        fetch_rows cur = Inr rows"
  then show "\<exists>out. fst (get_table_data config eng p w) = Inr out"
    by (simp add: get_table_data_def fst_log_and_reraise fst_read_rows)
qed

theorem truncation_signalled_by_warning_witness:
  "fst (execute_query (example_config 2) (example_engine (Inr [row_a, row_b, row_c]))
          example_query example_world) = Inr [row_a, row_b]
   \<and> logged (snd (execute_query (example_config 2) (example_engine (Inr [row_a, row_b, row_c]))
          example_query example_world))
       = [(WARNING, Result_truncated 2), (INFO, Query_succeeded 2)]
   \<and> fst (get_table_data (example_config 2) (example_engine (Inr [row_a, row_b, row_c]))
          example_params example_world) = Inr [row_a, row_b]
   \<and> logged (snd (get_table_data (example_config 2) (example_engine (Inr [row_a, row_b, row_c]))
          example_params example_world))
       = [(WARNING, Result_truncated 2), (INFO, Table_data_fetched ''t'' 2)]"
  using truncation_signalled_by_warning
    [of "example_config 2" "example_engine (Inr [row_a, row_b, row_c])" example_query
        example_world example_params]
  by (simp add: execute_query_def get_table_data_def fst_log_and_reraise fst_read_rows
        example_engine_simps example_config_def example_world_def example_params_def
        py_slice_to_def)

lemma capped_shape:
  assumes "0 \<le> n"
    and "out = (if n < int (length rows) then py_slice_to n rows else rows)"
  shows "if int (length rows) \<le> n then out = rows
         else out = take (nat n) rows \<and> int (length out) = n"
  using assms by (simp add: py_slice_to_cap)

lemma execute_query_capped:
  assumes "0 \<le> MAX_RESULT_ROWS config" and "fst (execute_query config eng qp w) = Inr out"
  shows "\<exists>cur rows.
         fst (conn_execute eng (db w) (query qp) (bound_values qp)) = Inr cur \<and>
         fetch_rows cur = Inr rows \<and>
         (if int (length rows) \<le> MAX_RESULT_ROWS config then out = rows
          else out = take (nat (MAX_RESULT_ROWS config)) rows \<and>
               int (length out) = MAX_RESULT_ROWS config)"
proof -
  from assms(2) have "fst (read_rows config eng Query_succeeded (query qp) (bound_values qp) w) = Inr out"
    by (simp add: execute_query_def fst_log_and_reraise)
  then obtain cur rows where h:
    "fst (conn_execute eng (db w) (query qp) (bound_values qp)) = Inr cur"
    "fetch_rows cur = Inr rows"
    "out = (if MAX_RESULT_ROWS config < int (length rows)
            then py_slice_to (MAX_RESULT_ROWS config) rows else rows)"
    by (rule read_rows_succeeds)
  from capped_shape [OF assms(1) h(3)] h(1,2) show ?thesis by blast
qed

lemma get_table_data_capped:
  assumes "0 \<le> MAX_RESULT_ROWS config" and "fst (get_table_data config eng p w) = Inr out"
  shows "\<exists>cur rows.
         fst (conn_execute eng (db w) (table_query p) []) = Inr cur \<and>
         fetch_rows cur = Inr rows \<and>
         (if int (length rows) \<le> MAX_RESULT_ROWS config then out = rows
          else out = take (nat (MAX_RESULT_ROWS config)) rows \<and>
               int (length out) = MAX_RESULT_ROWS config)"
proof -
  from assms(2)
  have "fst (read_rows config eng (Table_data_fetched (table_name p)) (table_query p) [] w) = Inr out"
    by (simp add: get_table_data_def fst_log_and_reraise)
  then obtain cur rows where h:
    "fst (conn_execute eng (db w) (table_query p) []) = Inr cur"
    "fetch_rows cur = Inr rows"
    "out = (if MAX_RESULT_ROWS config < int (length rows)
            then py_slice_to (MAX_RESULT_ROWS config) rows else rows)"
    by (rule read_rows_succeeds)
  from capped_shape [OF assms(1) h(3)] h(1,2) show ?thesis by blast
qed

text \<open>
  Where the cap is not negative, the rows a successful reading call returns are
  all rows of the statement's result when there are at most \<^verbatim>\<open>MAX_RESULT_ROWS\<close> of
  them, and exactly the first \<^verbatim>\<open>MAX_RESULT_ROWS\<close> rows otherwise.
\<close>

lemma rows_are_capped_prefix:
  assumes "0 \<le> MAX_RESULT_ROWS config"
  shows
  "(\<forall>out. fst (execute_query config eng qp w) = Inr out \<longrightarrow>
      (\<exists>cur rows.
         fst (conn_execute eng (db w) (query qp) (bound_values qp)) = Inr cur \<and>
         fetch_rows cur = Inr rows \<and>
         (if int (length rows) \<le> MAX_RESULT_ROWS config then out = rows
          else out = take (nat (MAX_RESULT_ROWS config)) rows \<and>
               int (length out) = MAX_RESULT_ROWS config)))
   \<and> (\<forall>out. fst (get_table_data config eng p w) = Inr out \<longrightarrow>
      (\<exists>cur rows.
         fst (conn_execute eng (db w) (table_query p) []) = Inr cur \<and>
         fetch_rows cur = Inr rows \<and>
         (if int (length rows) \<le> MAX_RESULT_ROWS config then out = rows
          else out = take (nat (MAX_RESULT_ROWS config)) rows \<and>
               int (length out) = MAX_RESULT_ROWS config)))"
  using execute_query_capped [OF assms] get_table_data_capped [OF assms] by blast

text \<open>
  C2: every successful \<^verbatim>\<open>execute_query\<close> or \<^verbatim>\<open>get_table_data\<close> call returns all rows
  when there are at most \<^verbatim>\<open>MAX_RESULT_ROWS\<close>, and exactly the first
  \<^verbatim>\<open>MAX_RESULT_ROWS\<close> rows otherwise. The code misses this where the setting is
  negative, which \<^verbatim>\<open>MAX_RESULT_ROWS: int\<close> lets through: with the cap \<open>-1\<close> and a
  result of two rows, \<^verbatim>\<open>len(rows) > -1\<close> holds, the slice \<^verbatim>\<open>rows[:-1]\<close> drops the
  last row, and the call returns one row while its warning speaks of a cap of
  \<open>-1\<close> rows.
\<close>

theorem negative_cap_drops_rows:
  "MAX_RESULT_ROWS (example_config (- 1)) < int (length [row_a, row_b])
   \<and> execute_query (example_config (- 1)) (example_engine (Inr [row_a, row_b]))
         example_query example_world
     = (Inr [row_a],
        \<lparr> db = [row_a],
          logged = [(WARNING, Result_truncated (- 1)), (INFO, Query_succeeded 1)],
          sent = [(''SELECT x FROM t WHERE x > :v'', [(''v'', SqlInt 0)])] \<rparr>)
   \<and> fst (get_table_data (example_config (- 1)) (example_engine (Inr [row_a, row_b]))
           example_params example_world) = Inr [row_a]
   \<and> int (length [row_a]) \<noteq> MAX_RESULT_ROWS (example_config (- 1))
   \<and> [row_a] \<noteq> [row_a, row_b]"
  by (simp add: execute_query_def get_table_data_def log_and_reraise_def read_rows_def
        truncate_rows_def log_line_def example_engine_simps example_config_def
        example_world_def example_query_def bound_values_def py_slice_to_def)

section \<open>Writing\<close>

lemma execute_write_cases:
  "execute_write eng qp w =
     (case eng_connect eng (db w) of
        Some e \<Rightarrow> (Inl e, w\<lparr>logged := logged w @ [(ERROR, Write_failed (str_exn e))]\<rparr>)
      | None \<Rightarrow>
          (case conn_execute eng (db w) (query qp) (bound_values qp) of
             (Inl e, working) \<Rightarrow>
               (Inl e, w\<lparr>db := conn_rollback eng (db w) working,
                         sent := sent w @ [(query qp, bound_values qp)],
                         logged := logged w @ [(ERROR, Write_failed (str_exn e))]\<rparr>)
           | (Inr cur, working) \<Rightarrow>
               (case conn_commit eng working of
                  Some e \<Rightarrow>
                    (Inl e, w\<lparr>db := conn_rollback eng (db w) working,
                              sent := sent w @ [(query qp, bound_values qp)],
                              logged := logged w @ [(INFO, Write_succeeded (rowcount cur)),
                                                    (ERROR, Write_failed (str_exn e))]\<rparr>)
                | None \<Rightarrow>
                    (Inr \<lparr> status = ''success'', affected_rows = rowcount cur,
                           result_lastrowid = lastrowid cur \<rparr>,
                     w\<lparr>db := working,
                       sent := sent w @ [(query qp, bound_values qp)],
                       logged := logged w @ [(INFO, Write_succeeded (rowcount cur))]\<rparr>))))"
  by (simp add: execute_write_def log_and_reraise_def log_line_def Let_def
        split: option.splits sum.splits prod.splits)








section \<open>Parameter binding\<close>

lemma sent_execute_query:
  "sent (snd (execute_query config eng qp w)) =
     sent w @ (case eng_connect eng (db w) of Some e \<Rightarrow> [] | None \<Rightarrow> [(query qp, bound_values qp)])"
  by (simp add: execute_query_def sent_log_and_reraise sent_read_rows)

lemma sent_execute_write:
  "sent (snd (execute_write eng qp w)) =
     sent w @ (case eng_connect eng (db w) of Some e \<Rightarrow> [] | None \<Rightarrow> [(query qp, bound_values qp)])"
  by (cases "conn_execute eng (db w) (query qp) (bound_values qp)")
    (simp add: execute_write_cases split: option.splits sum.splits)

lemma read_rows_engine_agreement:
  assumes "eng_connect eng (db w) = eng_connect eng' (db w)"
    and "conn_execute eng (db w) sql vals = conn_execute eng' (db w) sql vals"
    and "conn_close eng (db w) = conn_close eng' (db w)"
  shows "read_rows config eng ok sql vals w = read_rows config eng' ok sql vals w"
  unfolding read_rows_def assms by (rule refl)

lemma execute_query_engine_agreement:
  assumes "eng_connect eng (db w) = eng_connect eng' (db w)"
    and "conn_execute eng (db w) (query qp) (bound_values qp)
           = conn_execute eng' (db w) (query qp) (bound_values qp)"
    and "conn_close eng (db w) = conn_close eng' (db w)"
  shows "execute_query config eng qp w = execute_query config eng' qp w"
  using read_rows_engine_agreement [OF assms] by (simp add: execute_query_def)

lemma execute_write_engine_agreement:
  assumes "eng_connect eng (db w) = eng_connect eng' (db w)"
    and "conn_execute eng (db w) (query qp) (bound_values qp)
           = conn_execute eng' (db w) (query qp) (bound_values qp)"
    and "conn_commit eng = conn_commit eng'"
    and "conn_rollback eng (db w) = conn_rollback eng' (db w)"
  shows "execute_write eng qp w = execute_write eng' qp w"
  unfolding execute_write_cases assms by (rule refl)

lemma recording_engine_simps:
  "eng_connect recording_engine d = None"
  "conn_execute recording_engine d sql vals =
     (Inr \<lparr> fetch_rows = Inr [], rowcount = 0, lastrowid = None \<rparr>, d @ [(sql, vals)])"
  "conn_close recording_engine d d' = d'"
  "conn_commit recording_engine d = None"
  "conn_rollback recording_engine d d' = d'"
  by (simp_all add: recording_engine_def)

lemma db_read_rows:
  "db (snd (read_rows config eng ok sql vals w)) =
     (case eng_connect eng (db w) of
        Some e \<Rightarrow> db w
      | None \<Rightarrow> conn_close eng (db w) (snd (conn_execute eng (db w) sql vals)))"
  by (simp add: read_rows_def truncate_rows_def log_line_def Let_def
        split: option.splits sum.splits prod.splits)

lemma db_read_rows_recording:
  "db (snd (read_rows config recording_engine ok sql vals w)) = db w @ [(sql, vals)]"
  by (simp add: db_read_rows recording_engine_simps)

lemma recorded_execute_query:
  "db (snd (execute_query config recording_engine qp w)) = db w @ [(query qp, bound_values qp)]"
  by (simp add: execute_query_def db_log_and_reraise db_read_rows_recording)

lemma recorded_execute_write:
  "db (snd (execute_write recording_engine qp w)) = db w @ [(query qp, bound_values qp)]"
  by (simp add: execute_write_cases recording_engine_simps)

text \<open>
  C4: \<^verbatim>\<open>execute_query\<close> and \<^verbatim>\<open>execute_write\<close> hand the connection the caller's query
  text as it is and the caller's values beside it. What a call does depends on
  the engine's answer to that one pair only: two engines that answer it alike
  give the same outcome, however they differ on any other text, such as one
  with the values spliced in. An engine that records what it receives has
  received the caller's text and the values, separately; so the texts received
  in two runs that differ in the values only are the same. The list \<open>sent\<close>
  says the same of every engine.
\<close>

theorem statement_text_independent_of_values:
  "(\<forall>eng'.
      eng_connect (eng :: 'd engine) (db w) = eng_connect eng' (db w) \<and>
      conn_execute eng (db w) q (bound_values \<lparr>query = q, params = ps\<rparr>)
        = conn_execute eng' (db w) q (bound_values \<lparr>query = q, params = ps\<rparr>) \<and>
      conn_close eng (db w) = conn_close eng' (db w) \<longrightarrow>
      execute_query config eng \<lparr>query = q, params = ps\<rparr> w
        = execute_query config eng' \<lparr>query = q, params = ps\<rparr> w)
   \<and> (\<forall>eng'.
      eng_connect eng (db w) = eng_connect eng' (db w) \<and>
      conn_execute eng (db w) q (bound_values \<lparr>query = q, params = ps\<rparr>)
        = conn_execute eng' (db w) q (bound_values \<lparr>query = q, params = ps\<rparr>) \<and>
      conn_commit eng = conn_commit eng' \<and>
      conn_rollback eng (db w) = conn_rollback eng' (db w) \<longrightarrow>
      execute_write eng \<lparr>query = q, params = ps\<rparr> w
        = execute_write eng' \<lparr>query = q, params = ps\<rparr> w)
   \<and> db (snd (execute_query config recording_engine \<lparr>query = q, params = ps\<rparr> r)) =
     db r @ [(q, case ps of None \<Rightarrow> [] | Some vals \<Rightarrow> vals)]
   \<and> db (snd (execute_write recording_engine \<lparr>query = q, params = ps\<rparr> r)) =
     db r @ [(q, case ps of None \<Rightarrow> [] | Some vals \<Rightarrow> vals)]
   \<and> map fst (db (snd (execute_query config recording_engine \<lparr>query = q, params = ps\<rparr> r))) =
     map fst (db (snd (execute_query config recording_engine \<lparr>query = q, params = ps'\<rparr> r)))
   \<and> map fst (db (snd (execute_write recording_engine \<lparr>query = q, params = ps\<rparr> r))) =
     map fst (db (snd (execute_write recording_engine \<lparr>query = q, params = ps'\<rparr> r)))
   \<and> sent (snd (execute_query config eng \<lparr>query = q, params = ps\<rparr> w)) =
     sent w @ (case eng_connect eng (db w) of
                 Some e \<Rightarrow> []
               | None \<Rightarrow> [(q, case ps of None \<Rightarrow> [] | Some vals \<Rightarrow> vals)])
   \<and> sent (snd (execute_write eng \<lparr>query = q, params = ps\<rparr> w)) =
     sent w @ (case eng_connect eng (db w) of
                 Some e \<Rightarrow> []
               | None \<Rightarrow> [(q, case ps of None \<Rightarrow> [] | Some vals \<Rightarrow> vals)])
   \<and> map fst (sent (snd (execute_query config eng \<lparr>query = q, params = ps\<rparr> w))) =
     map fst (sent (snd (execute_query config eng \<lparr>query = q, params = ps'\<rparr> w)))
   \<and> map fst (sent (snd (execute_write eng \<lparr>query = q, params = ps\<rparr> w))) =
     map fst (sent (snd (execute_write eng \<lparr>query = q, params = ps'\<rparr> w)))"
proof (intro conjI allI impI)
  fix eng' :: "'d engine"
  assume "eng_connect eng (db w) = eng_connect eng' (db w) \<and>
      conn_execute eng (db w) q (bound_values \<lparr>query = q, params = ps\<rparr>)
        = conn_execute eng' (db w) q (bound_values \<lparr>query = q, params = ps\<rparr>) \<and>
      conn_close eng (db w) = conn_close eng' (db w)"
  then show "execute_query config eng \<lparr>query = q, params = ps\<rparr> w
        = execute_query config eng' \<lparr>query = q, params = ps\<rparr> w"
    by (intro execute_query_engine_agreement) simp_all
next
  fix eng' :: "'d engine"
  assume "eng_connect eng (db w) = eng_connect eng' (db w) \<and>
      conn_execute eng (db w) q (bound_values \<lparr>query = q, params = ps\<rparr>)
        = conn_execute eng' (db w) q (bound_values \<lparr>query = q, params = ps\<rparr>) \<and>
      conn_commit eng = conn_commit eng' \<and>
      conn_rollback eng (db w) = conn_rollback eng' (db w)"
  then show "execute_write eng \<lparr>query = q, params = ps\<rparr> w
        = execute_write eng' \<lparr>query = q, params = ps\<rparr> w"
    by (intro execute_write_engine_agreement) simp_all
qed (simp_all add: recorded_execute_query recorded_execute_write sent_execute_query
       sent_execute_write bound_values_def split: option.splits)

theorem statement_text_independent_of_values_witness:
  "conn_execute (example_engine (Inr [row_a])) (db example_world) (query example_query)
       (bound_values example_query)
     = conn_execute (strict_engine (query example_query) [row_a]) (db example_world)
         (query example_query) (bound_values example_query)
   \<and> conn_execute (example_engine (Inr [row_a])) (db example_world)
         ''SELECT x FROM t WHERE x > 0'' []
     \<noteq> conn_execute (strict_engine (query example_query) [row_a]) (db example_world)
         ''SELECT x FROM t WHERE x > 0'' []
   \<and> execute_query (example_config 1000) (example_engine (Inr [row_a])) example_query example_world
     = execute_query (example_config 1000) (strict_engine (query example_query) [row_a])
         example_query example_world
   \<and> fst (execute_query (example_config 1000) (strict_engine (query example_query) [row_a])
            example_query example_world) = Inr [row_a]
   \<and> db (snd (execute_query (example_config 1000) recording_engine example_query
                 \<lparr> db = [], logged = [], sent = [] \<rparr>))
     = [(''SELECT x FROM t WHERE x > :v'', [(''v'', SqlInt 0)])]"
  using statement_text_independent_of_values
      [of "example_engine (Inr [row_a])" example_world "query example_query"
          "params example_query" "example_config 1000" "\<lparr> db = [], logged = [], sent = [] \<rparr>"
          "params example_query"]
  by (simp add: example_query_def example_world_def example_engine_def strict_engine_def
        bound_values_def execute_query_def fst_log_and_reraise fst_read_rows example_config_def)

section \<open>Request validation\<close>

lemma validate_rejects_limit:
  assumes "arg_limit a = Some l" and "l < 1 \<or> 1000 < l"
  shows "\<exists>m. TableQueryParams_validate a = Inl (ValidationError m)"
  using assms by (auto simp add: TableQueryParams_validate_def Let_def)

lemma validate_accepts_limit:
  assumes "arg_limit a = Some l" and "1 \<le> l" and "l \<le> 1000"
  shows "\<exists>p. TableQueryParams_validate a = Inr p \<and> limit p = l"
  using assms by (simp add: TableQueryParams_validate_def Let_def)

lemma validate_default_limit:
  assumes "arg_limit a = None"
  shows "\<exists>p. TableQueryParams_validate a = Inr p \<and> limit p = 100"
  using assms by (simp add: TableQueryParams_validate_def Let_def)

text \<open>
  C5: a \<^verbatim>\<open>get_table_data\<close> request whose limit is below 1 or above 1000 is answered
  with a validation error and the state is left as it was: no statement is
  handed to the connection, nothing is logged, the database is untouched. A
  limit from 1 to 1000 is accepted as given, and a request without a limit gets
  the limit 100.
\<close>

theorem limit_out_of_range_rejected:
  "(\<forall>l. arg_limit a = Some l \<and> (l < 1 \<or> 1000 < l) \<longrightarrow>
        (\<exists>m. get_table_data_request config eng a w = (Inl (ValidationError m), w)))
   \<and> (\<forall>l. arg_limit a = Some l \<and> 1 \<le> l \<and> l \<le> 1000 \<longrightarrow>
        (\<exists>p. TableQueryParams_validate a = Inr p \<and> limit p = l))
   \<and> (arg_limit a = None \<longrightarrow> (\<exists>p. TableQueryParams_validate a = Inr p \<and> limit p = 100))"
proof (intro conjI allI impI)
  fix l assume "arg_limit a = Some l \<and> (l < 1 \<or> 1000 < l)"
  then obtain m where "TableQueryParams_validate a = Inl (ValidationError m)"
    using validate_rejects_limit by blast
  then show "\<exists>m. get_table_data_request config eng a w = (Inl (ValidationError m), w)"
    by (simp add: get_table_data_request_def)
next
  fix l assume "arg_limit a = Some l \<and> 1 \<le> l \<and> l \<le> 1000"
  then show "\<exists>p. TableQueryParams_validate a = Inr p \<and> limit p = l"
    using validate_accepts_limit by blast
next
  assume "arg_limit a = None"
  then show "\<exists>p. TableQueryParams_validate a = Inr p \<and> limit p = 100"
    by (rule validate_default_limit)
qed

theorem limit_out_of_range_rejected_witness:
  "get_table_data_request (example_config 1000) (example_engine (Inr [row_a]))
       (example_args (Some 0) None) example_world
     = (Inl (ValidationError ''limit: greater than or equal to 1''), example_world)
   \<and> get_table_data_request (example_config 1000) (example_engine (Inr [row_a]))
       (example_args (Some 1001) None) example_world
     = (Inl (ValidationError ''limit: less than or equal to 1000''), example_world)
   \<and> TableQueryParams_validate (example_args None None) = Inr example_params
   \<and> limit example_params = 100"
  using limit_out_of_range_rejected
      [of "example_args (Some 0) None" "example_config 1000" "example_engine (Inr [row_a])"
          example_world]
    limit_out_of_range_rejected
      [of "example_args (Some 1001) None" "example_config 1000" "example_engine (Inr [row_a])"
          example_world]
    limit_out_of_range_rejected
      [of "example_args None None" "example_config 1000" "example_engine (Inr [row_a])"
          example_world]
  by (simp add: get_table_data_request_def TableQueryParams_validate_def example_args_def
        example_params_def)

lemma table_query_example:
  "table_query \<lparr> table_name = ''t'', columns = None, where_clause = None, order_by = None,
                  limit = 100, offset = - 1 \<rparr> = ''SELECT * FROM t LIMIT 100 OFFSET -1''"
  by code_simp

lemma sent_get_table_data:
  "sent (snd (get_table_data config eng p w)) =
     sent w @ (case eng_connect eng (db w) of Some e \<Rightarrow> [] | None \<Rightarrow> [(table_query p, [])])"
  by (simp add: get_table_data_def sent_log_and_reraise sent_read_rows)

lemma recorded_get_table_data:
  "db (snd (get_table_data config recording_engine p w)) = db w @ [(table_query p, [])]"
  by (simp add: get_table_data_def db_log_and_reraise db_read_rows_recording)

text \<open>
  C6: a negative offset is to be rejected by validation before the database is
  reached, and an omitted offset is 0. The code misses the first: \<^verbatim>\<open>offset: int = 0\<close>
  declares no bound, where \<^verbatim>\<open>limit\<close> on the line above declares \<^verbatim>\<open>ge=1, le=1000\<close>. A
  request with the offset \<open>-1\<close> is accepted, its statement, ending in
  \<^verbatim>\<open>OFFSET -1\<close>, is handed to the connection and received by the engine, and
  the call returns what the engine answers.
\<close>

theorem negative_offset_reaches_database:
  "TableQueryParams_validate (example_args None (Some (- 1)))
     = Inr \<lparr> table_name = ''t'', columns = None, where_clause = None, order_by = None,
             limit = 100, offset = - 1 \<rparr>
   \<and> sent (snd (get_table_data_request (example_config 1000) (example_engine (Inr [row_a]))
                  (example_args None (Some (- 1))) example_world))
     = [(''SELECT * FROM t LIMIT 100 OFFSET -1'', [])]
   \<and> db (snd (get_table_data_request (example_config 1000) recording_engine
                (example_args None (Some (- 1))) \<lparr> db = [], logged = [], sent = [] \<rparr>))
     = [(''SELECT * FROM t LIMIT 100 OFFSET -1'', [])]
   \<and> fst (get_table_data_request (example_config 1000) (example_engine (Inr [row_a]))
            (example_args None (Some (- 1))) example_world) = Inr [row_a]"
proof -
  have valid: "TableQueryParams_validate (example_args None (Some (- 1)))
     = Inr \<lparr> table_name = ''t'', columns = None, where_clause = None, order_by = None,
             limit = 100, offset = - 1 \<rparr>"
    by (simp add: TableQueryParams_validate_def example_args_def)
  have handed: "sent (snd (get_table_data_request (example_config 1000)
                  (example_engine (Inr [row_a])) (example_args None (Some (- 1))) example_world))
     = [(''SELECT * FROM t LIMIT 100 OFFSET -1'', [])]"
    by (simp add: get_table_data_request_def valid sent_get_table_data example_engine_simps
          example_world_def table_query_example)
  have received: "db (snd (get_table_data_request (example_config 1000) recording_engine
                (example_args None (Some (- 1))) \<lparr> db = [], logged = [], sent = [] \<rparr>))
     = [(''SELECT * FROM t LIMIT 100 OFFSET -1'', [])]"
    by (simp add: get_table_data_request_def valid recorded_get_table_data table_query_example)
  have answered: "fst (get_table_data_request (example_config 1000)
            (example_engine (Inr [row_a])) (example_args None (Some (- 1))) example_world)
     = Inr [row_a]"
    by (simp add: get_table_data_request_def valid get_table_data_def fst_log_and_reraise
          fst_read_rows example_engine_simps example_config_def)
  from valid handed received answered show ?thesis by simp
qed

lemma offset_defaults_to_zero:
  assumes "TableQueryParams_validate a = Inr p" and "arg_offset a = None"
  shows "offset p = 0"
  using assms by (auto simp add: TableQueryParams_validate_def Let_def split: if_splits)

section \<open>Propagation of failures\<close>

lemma error_line_logged:
  assumes "fst (log_and_reraise failed r) = Inl e"
  shows "\<exists>earlier. logged (snd (log_and_reraise failed r)) = earlier @ [(ERROR, failed (str_exn e))]"
  using assms by (simp add: fst_log_and_reraise logged_log_and_reraise)

lemma raised_list_tables:
  "raised (fst (list_tables eng w)) =
     (case eng_inspect eng (db w) of
        Some e \<Rightarrow> Some e
      | None \<Rightarrow> raised (insp_get_table_names eng (db w)))"
  by (simp add: list_tables_def fst_log_and_reraise split: option.splits sum.splits)

lemma raised_describe_table:
  "raised (fst (describe_table eng tname w)) =
     (case eng_inspect eng (db w) of
        Some e \<Rightarrow> Some e
      | None \<Rightarrow> raised (insp_get_columns eng (db w) tname))"
  by (simp add: describe_table_def fst_log_and_reraise split: option.splits sum.splits)

lemma raised_read_rows:
  "raised (fst (read_rows config eng ok sql vals w)) =
     (case eng_connect eng (db w) of
        Some e \<Rightarrow> Some e
      | None \<Rightarrow>
          (case fst (conn_execute eng (db w) sql vals) of
             Inl e \<Rightarrow> Some e
           | Inr cur \<Rightarrow> raised (fetch_rows cur)))"
  by (simp add: fst_read_rows split: option.splits sum.splits)

lemma raised_execute_query:
  "raised (fst (execute_query config eng qp w)) =
     (case eng_connect eng (db w) of
        Some e \<Rightarrow> Some e
      | None \<Rightarrow>
          (case fst (conn_execute eng (db w) (query qp) (bound_values qp)) of
             Inl e \<Rightarrow> Some e
           | Inr cur \<Rightarrow> raised (fetch_rows cur)))"
  by (simp add: execute_query_def fst_log_and_reraise raised_read_rows)

lemma raised_get_table_data:
  "raised (fst (get_table_data config eng p w)) =
     (case eng_connect eng (db w) of
        Some e \<Rightarrow> Some e
      | None \<Rightarrow>
          (case fst (conn_execute eng (db w) (table_query p) []) of
             Inl e \<Rightarrow> Some e
           | Inr cur \<Rightarrow> raised (fetch_rows cur)))"
  by (simp add: get_table_data_def fst_log_and_reraise raised_read_rows)

lemma raised_execute_write:
  "raised (fst (execute_write eng qp w)) =
     (case eng_connect eng (db w) of
        Some e \<Rightarrow> Some e
      | None \<Rightarrow>
          (case fst (conn_execute eng (db w) (query qp) (bound_values qp)) of
             Inl e \<Rightarrow> Some e
           | Inr cur \<Rightarrow>
               conn_commit eng (snd (conn_execute eng (db w) (query qp) (bound_values qp)))))"
  by (cases "conn_execute eng (db w) (query qp) (bound_values qp)")
    (simp add: execute_write_def log_and_reraise_def Let_def split: option.splits sum.splits)

lemma failures_are_logged:
  "fst (list_tables eng w) = Inl e \<Longrightarrow>
     \<exists>earlier. logged (snd (list_tables eng w)) = earlier @ [(ERROR, Tables_failed (str_exn e))]"
  "fst (describe_table eng tname w) = Inl e \<Longrightarrow>
     \<exists>earlier. logged (snd (describe_table eng tname w))
                 = earlier @ [(ERROR, Schema_failed tname (str_exn e))]"
  "fst (execute_query config eng qp w) = Inl e \<Longrightarrow>
     \<exists>earlier. logged (snd (execute_query config eng qp w))
                 = earlier @ [(ERROR, Query_failed (str_exn e))]"
  "fst (execute_write eng qp w) = Inl e \<Longrightarrow>
     \<exists>earlier. logged (snd (execute_write eng qp w))
                 = earlier @ [(ERROR, Write_failed (str_exn e))]"
  "fst (get_table_data config eng p w) = Inl e \<Longrightarrow>
     \<exists>earlier. logged (snd (get_table_data config eng p w))
                 = earlier @ [(ERROR, Table_data_failed (table_name p) (str_exn e))]"
  unfolding list_tables_def describe_table_def execute_query_def execute_write_def
    get_table_data_def
  by (rule error_line_logged, assumption)+

text \<open>
  C7: for each of the five tool functions, the exception the call raises is the
  first exception raised by the library calls it makes, unchanged, and the call
  returns a result exactly when none of them raised. A call that raises has
  logged its error line, with the exception's text, as the last thing it did.
\<close>

theorem failures_reraised_unmodified:
  "raised (fst (list_tables eng w)) =
     (case eng_inspect eng (db w) of
        Some e \<Rightarrow> Some e
      | None \<Rightarrow> raised (insp_get_table_names eng (db w)))
   \<and> raised (fst (describe_table eng tname w)) =
     (case eng_inspect eng (db w) of
        Some e \<Rightarrow> Some e
      | None \<Rightarrow> raised (insp_get_columns eng (db w) tname))
   \<and> raised (fst (execute_query config eng qp w)) =
     (case eng_connect eng (db w) of
        Some e \<Rightarrow> Some e
      | None \<Rightarrow>
          (case fst (conn_execute eng (db w) (query qp) (bound_values qp)) of
             Inl e \<Rightarrow> Some e
           | Inr cur \<Rightarrow> raised (fetch_rows cur)))
   \<and> raised (fst (execute_write eng qp w)) =
     (case eng_connect eng (db w) of
        Some e \<Rightarrow> Some e
      | None \<Rightarrow>
          (case fst (conn_execute eng (db w) (query qp) (bound_values qp)) of
             Inl e \<Rightarrow> Some e
           | Inr cur \<Rightarrow>
               conn_commit eng (snd (conn_execute eng (db w) (query qp) (bound_values qp)))))
   \<and> raised (fst (get_table_data config eng p w)) =
     (case eng_connect eng (db w) of
        Some e \<Rightarrow> Some e
      | None \<Rightarrow>
          (case fst (conn_execute eng (db w) (table_query p) []) of
             Inl e \<Rightarrow> Some e
           | Inr cur \<Rightarrow> raised (fetch_rows cur)))
   \<and> (\<forall>e. fst (list_tables eng w) = Inl e \<longrightarrow>
         (\<exists>earlier. logged (snd (list_tables eng w))
                      = earlier @ [(ERROR, Tables_failed (str_exn e))]))
   \<and> (\<forall>e. fst (describe_table eng tname w) = Inl e \<longrightarrow>
         (\<exists>earlier. logged (snd (describe_table eng tname w))
                      = earlier @ [(ERROR, Schema_failed tname (str_exn e))]))
   \<and> (\<forall>e. fst (execute_query config eng qp w) = Inl e \<longrightarrow>
         (\<exists>earlier. logged (snd (execute_query config eng qp w))
                      = earlier @ [(ERROR, Query_failed (str_exn e))]))
   \<and> (\<forall>e. fst (execute_write eng qp w) = Inl e \<longrightarrow>
         (\<exists>earlier. logged (snd (execute_write eng qp w))
                      = earlier @ [(ERROR, Write_failed (str_exn e))]))
   \<and> (\<forall>e. fst (get_table_data config eng p w) = Inl e \<longrightarrow>
         (\<exists>earlier. logged (snd (get_table_data config eng p w))
                      = earlier @ [(ERROR, Table_data_failed (table_name p) (str_exn e))]))"
  by (intro conjI allI impI raised_list_tables raised_describe_table raised_execute_query
        raised_execute_write raised_get_table_data failures_are_logged)

theorem failures_reraised_unmodified_witness:
  "fst (execute_query (example_config 1000) (example_engine (Inl (DriverError ''syntax error'')))
          example_query example_world) = Inl (DriverError ''syntax error'')
   \<and> logged (snd (execute_query (example_config 1000)
          (example_engine (Inl (DriverError ''syntax error''))) example_query example_world))
       = [(ERROR, Query_failed ''syntax error'')]
   \<and> fst (describe_table (example_engine (Inl (DriverError ''syntax error''))) ''missing''
          example_world) = Inl (DriverError ''NoSuchTableError'')
   \<and> fst (list_tables (example_engine (Inl (DriverError ''syntax error''))) example_world)
       = Inr [''t'']"
  using failures_reraised_unmodified
      [of "example_engine (Inl (DriverError ''syntax error''))" example_world "''missing''"
          "example_config 1000" example_query example_params]
  by (simp add: execute_query_def list_tables_def describe_table_def log_and_reraise_def
        log_line_def fst_read_rows logged_read_rows example_engine_simps example_engine_def
        example_world_def)

section \<open>The query timeout\<close>

lemma truncate_rows_ignores_timeout:
  "truncate_rows (config\<lparr>QUERY_TIMEOUT := t\<rparr>) rows w = truncate_rows config rows w"
  by (simp add: truncate_rows_def)

lemma read_rows_ignores_timeout:
  "read_rows (config\<lparr>QUERY_TIMEOUT := t\<rparr>) eng ok sql vals w = read_rows config eng ok sql vals w"
  unfolding read_rows_def truncate_rows_ignores_timeout ..

text \<open>
  C10: \<^verbatim>\<open>QUERY_TIMEOUT\<close> reaches the engine as the \<^verbatim>\<open>connect_timeout\<close> entry of the
  URL's query and nowhere else: the URL's query has that entry and the charset
  only, changing \<^verbatim>\<open>QUERY_TIMEOUT\<close> changes nothing else of what the engine is
  created from, and the tool functions that read the configuration behave the
  same for every value of it (the others do not read the configuration).
\<close>

theorem query_timeout_is_connect_timeout_only:
  "url_query (url (create_db_engine config)) =
     [(''charset'', ''utf8mb4''), (''connect_timeout'', str_int (QUERY_TIMEOUT config))]
   \<and> create_db_engine (config\<lparr>QUERY_TIMEOUT := t\<rparr>) =
     (create_db_engine config)
       \<lparr>url := (url (create_db_engine config))
          \<lparr>url_query := [(''charset'', ''utf8mb4''), (''connect_timeout'', str_int t)]\<rparr>\<rparr>
   \<and> execute_query (config\<lparr>QUERY_TIMEOUT := t\<rparr>) eng qp w = execute_query config eng qp w
   \<and> get_table_data (config\<lparr>QUERY_TIMEOUT := t\<rparr>) eng p w = get_table_data config eng p w"
  by (simp add: create_db_engine_def execute_query_def get_table_data_def
        read_rows_ignores_timeout)

end
